theory Spec2Isabelle
  imports Main "HOL-Library.Code_Target_Nat"
begin

text \<open>
  A chat server: users register and create conversations, send messages, and get a reply
  that an ordered list of pattern rules computes from the text of the message. The theory
  embeds the reply rules and the handlers of \<^verbatim>\<open>registerRoutes\<close>, the middleware
  \<^verbatim>\<open>requireAuth\<close> and the storage operations of \<^verbatim>\<open>DatabaseStorage\<close>, and proves
  the properties C1 to C10 about them.
\<close>

section \<open>Text and the string operations the reply rules use\<close>

text \<open>
  Message text is a \<^typ>\<open>string\<close>. One \<^typ>\<open>char\<close> stands for one character of
  ASCII text, on which every operation below agrees with its JavaScript original. The one
  non-ASCII piece of a reply template (the separator of the calculation line) is written as
  the bytes it has in the source file.
\<close>

definition lower_char :: "char \<Rightarrow> char" where
  "lower_char c =
     (let n = (of_char c :: nat) in if 65 \<le> n \<and> n \<le> 90 then char_of (n + 32) else c)"

text \<open>\<^verbatim>\<open>content.toLowerCase()\<close>\<close>

definition toLowerCase :: "string \<Rightarrow> string" where
  "toLowerCase s = map lower_char s"

text \<open>\<^verbatim>\<open>s.startsWith(t)\<close>\<close>

fun startsWith :: "string \<Rightarrow> string \<Rightarrow> bool" where
  "startsWith s [] = True"
| "startsWith [] (c # t) = False"
| "startsWith (a # s) (c # t) = (a = c \<and> startsWith s t)"

text \<open>\<^verbatim>\<open>s.includes(t)\<close>: \<open>t\<close> occurs in \<open>s\<close> as a contiguous piece.\<close>

fun str_includes :: "string \<Rightarrow> string \<Rightarrow> bool" where
  "str_includes [] t = (t = [])"
| "str_includes (a # s) t = (startsWith (a # s) t \<or> str_includes s t)"

definition is_digit :: "char \<Rightarrow> bool" where
  "is_digit c = (let n = (of_char c :: nat) in 48 \<le> n \<and> n \<le> 57)"

text \<open>The class \<^verbatim>\<open>\s\<close> on ASCII: tab, line feed, vertical tab, form feed, carriage return, space.\<close>

definition is_space :: "char \<Rightarrow> bool" where
  "is_space c = (let n = (of_char c :: nat) in (9 \<le> n \<and> n \<le> 13) \<or> n = 32)"

text \<open>The class \<^verbatim>\<open>[x*]\<close> under the flag \<^verbatim>\<open>i\<close>.\<close>

definition is_times :: "char \<Rightarrow> bool" where
  "is_times c = (c = CHR ''x'' \<or> c = CHR ''X'' \<or> c = CHR ''*'')"

text \<open>
  \<^verbatim>\<open>\d+(?:\.\d+)?\<close> at the start of a string: the captured numeral and the rest. The
  digits are taken greedily, and so is the fraction when a dot and a digit follow.
\<close>

definition number_token :: "string \<Rightarrow> (string \<times> string) option" where
  "number_token s =
     (let ds = takeWhile is_digit s; r = dropWhile is_digit s in
      if ds = [] then None
      else (case r of
              c # r' \<Rightarrow>
                if c = CHR ''.'' \<and> takeWhile is_digit r' \<noteq> []
                then Some (ds @ [c] @ takeWhile is_digit r', dropWhile is_digit r')
                else Some (ds, r)
            | [] \<Rightarrow> Some (ds, r)))"

text \<open>
  The pattern \<^verbatim>\<open>/(\d+(?:\.\d+)?)\s*[x*]\s*(\d+(?:\.\d+)?)/i\<close> tried at the start of a
  string. What follows the first numeral must be white space or the operator, which is
  neither a digit nor a dot, so giving back part of a greedy numeral never lets the rest
  match: the attempt at one position is the greedy one.
\<close>

definition match_here :: "string \<Rightarrow> (string \<times> string) option" where
  "match_here s =
     (case number_token s of
        None \<Rightarrow> None
      | Some (g1, r) \<Rightarrow>
          (case dropWhile is_space r of
             [] \<Rightarrow> None
           | c # r' \<Rightarrow>
               if is_times c then
                 (case number_token (dropWhile is_space r') of
                    None \<Rightarrow> None
                  | Some (g2, _) \<Rightarrow> Some (g1, g2))
               else None))"

text \<open>
  \<^verbatim>\<open>content.match(...)\<close>: the leftmost position where the pattern matches, with its two
  captured groups; \<open>None\<close> is \<^verbatim>\<open>null\<close>.
\<close>

fun mathMatch :: "string \<Rightarrow> (string \<times> string) option" where
  "mathMatch [] = None"
| "mathMatch (a # s) =
     (case match_here (a # s) of Some g \<Rightarrow> Some g | None \<Rightarrow> mathMatch s)"

text \<open>The class \<^verbatim>\<open>[0-9+\-*/().]\<close>.\<close>

definition is_math_char :: "char \<Rightarrow> bool" where
  "is_math_char c = (is_digit c \<or> c \<in> set ''+-*/().'')"

text \<open>\<^verbatim>\<open>content.replace(/[^0-9+\-*/().]/g, '')\<close>\<close>

definition cleanMathOf :: "string \<Rightarrow> string" where
  "cleanMathOf content = filter is_math_char content"

text \<open>\<^verbatim>\<open>/^[0-9+\-*/().]+$/.test(s)\<close>\<close>

definition math_only :: "string \<Rightarrow> bool" where
  "math_only s = (s \<noteq> [] \<and> list_all is_math_char s)"

section \<open>The JavaScript engine\<close>

text \<open>
  Numbers, their locale formatting and \<^verbatim>\<open>eval\<close> belong to the JavaScript engine, not
  to the repository. The reply rules take them as a parameter:
  \<^item> \<open>parseFloat\<close>, \<open>times\<close> (the operator \<^verbatim>\<open>*\<close> on numbers) and \<open>toLocaleString\<close>
    on numbers never throw;
  \<^item> \<open>evalToLocaleString s\<close> is \<^verbatim>\<open>eval(s).toLocaleString()\<close>: \<open>Some\<close> of the string
    it yields, \<open>None\<close> when the evaluation or the call on its result throws.
\<close>

record 'n engine =
  parseFloat :: "string \<Rightarrow> 'n"
  times :: "'n \<Rightarrow> 'n \<Rightarrow> 'n"
  toLocaleString :: "'n \<Rightarrow> string"
  evalToLocaleString :: "string \<Rightarrow> string option"

text \<open>
  A \<^verbatim>\<open>Date\<close> as the code observes it: its time value in milliseconds and the two
  strings its locale methods return.
\<close>

record date =
  getTime :: nat
  toLocaleTimeString :: string
  toLocaleDateString :: string

section \<open>The reply rules\<close>

definition clarification :: string where
  "clarification =
     ''I can help with basic math calculations. Could you rephrase your question with a clearer mathematical expression?''"

definition greeting :: string where
  "greeting = ''Hello! I'' @ [CHR 0x27] @ ''m your AI assistant. How can I help you today?''"

definition status_reply :: string where
  "status_reply =
     ''I'' @ [CHR 0x27] @ ''m doing well, thank you for asking! I'' @ [CHR 0x27]
     @ ''m here to help you with any questions or tasks you have.''"

definition capabilities :: string where
  "capabilities =
     ''I can help you with various tasks like:'' @ [CHR 0x0A, CHR 0x0A]
     @ ''- **Math calculations** (try asking me to multiply large numbers!)'' @ [CHR 0x0A]
     @ ''- **Answering questions**'' @ [CHR 0x0A]
     @ ''- **Providing explanations**'' @ [CHR 0x0A]
     @ ''- **Writing assistance**'' @ [CHR 0x0A]
     @ ''- **Problem solving**'' @ [CHR 0x0A]
     @ ''- **General conversation**'' @ [CHR 0x0A, CHR 0x0A]
     @ ''What would you like help with?''"

definition gratitude :: string where
  "gratitude = ''You'' @ [CHR 0x27] @ ''re welcome! Is there anything else I can help you with?''"

text \<open>The separator of the calculation line, byte for byte as the source file has it.\<close>

definition times_sign :: string where
  "times_sign = [CHR 0xC3, CHR 0x83, CHR 0xE2, CHR 0x80, CHR 0x94]"

definition product_reply :: "string \<Rightarrow> string \<Rightarrow> string \<Rightarrow> string" where
  "product_reply n1 n2 r =
     ''The answer is: **'' @ r @ ''**'' @ [CHR 0x0A, CHR 0x0A] @ ''Calculation: '' @ n1 @ '' ''
     @ times_sign @ '' '' @ n2 @ '' = '' @ r"

definition eval_reply :: "string \<Rightarrow> string" where
  "eval_reply r = ''The answer is: **'' @ r @ ''**''"

definition time_reply :: "date \<Rightarrow> string" where
  "time_reply now =
     ''The current time is: **'' @ toLocaleTimeString now @ ''**'' @ [CHR 0x0A]
     @ ''The current date is: **'' @ toLocaleDateString now @ ''**''"

definition fallback_head :: string where
  "fallback_head = ''I understand you'' @ [CHR 0x27] @ ''re asking about '' @ [CHR 0x22]"

definition fallback_tail :: string where
  "fallback_tail =
     [CHR 0x22] @ ''. I'' @ [CHR 0x27]
     @ ''m a demo AI assistant that can help with basic questions, math calculations, and general conversation.''
     @ [CHR 0x0A, CHR 0x0A]
     @ ''**Try asking me:**'' @ [CHR 0x0A]
     @ ''- Math problems (like '' @ [CHR 0x22] @ ''what is 123 x 456?'' @ [CHR 0x22] @ '')'' @ [CHR 0x0A]
     @ ''- '' @ [CHR 0x22] @ ''What can you do?'' @ [CHR 0x22] @ [CHR 0x0A]
     @ ''- '' @ [CHR 0x22] @ ''What time is it?'' @ [CHR 0x22] @ [CHR 0x0A]
     @ ''- General questions'' @ [CHR 0x0A, CHR 0x0A]
     @ ''For advanced AI capabilities with real knowledge, you would need to connect to OpenAI or another AI service. This interface demonstrates all the ChatGPT-style features without requiring payment!''"

definition fallback :: "string \<Rightarrow> string" where
  "fallback content = fallback_head @ content @ fallback_tail"

text \<open>The conditions of the rules, on \<^verbatim>\<open>lowerContent\<close>, in the order of the source.\<close>

definition math_rule :: "string \<Rightarrow> bool" where
  "math_rule lowerContent =
     (str_includes lowerContent ''x'' \<or> str_includes lowerContent ''*''
      \<or> str_includes lowerContent ''+'' \<or> str_includes lowerContent ''-''
      \<or> str_includes lowerContent ''/'')"

definition greeting_rule :: "string \<Rightarrow> bool" where
  "greeting_rule lowerContent =
     (str_includes lowerContent ''hello'' \<or> str_includes lowerContent ''hi'')"

definition status_rule :: "string \<Rightarrow> bool" where
  "status_rule lowerContent = str_includes lowerContent ''how are you''"

definition capability_rule :: "string \<Rightarrow> bool" where
  "capability_rule lowerContent = str_includes lowerContent ''what can you do''"

definition gratitude_rule :: "string \<Rightarrow> bool" where
  "gratitude_rule lowerContent = str_includes lowerContent ''thank''"

definition time_rule :: "string \<Rightarrow> bool" where
  "time_rule lowerContent =
     (str_includes lowerContent ''time'' \<or> str_includes lowerContent ''date'')"

text \<open>
  The body of the math rule, with its own \<^verbatim>\<open>try\<close>/\<^verbatim>\<open>catch\<close>. Only
  \<^verbatim>\<open>eval(cleanMath).toLocaleString()\<close> can throw there, and the \<^verbatim>\<open>catch\<close> assigns the
  clarification. When there is no product and \<^verbatim>\<open>cleanMath\<close> is empty nothing is
  assigned: \<^verbatim>\<open>aiResponse\<close> stays \<^verbatim>\<open>undefined\<close>, which is \<open>None\<close>.
\<close>

definition math_branch :: "'n engine \<Rightarrow> string \<Rightarrow> string option" where
  "math_branch js content =
     (case mathMatch content of
        Some (g1, g2) \<Rightarrow>
          (let num1 = parseFloat js g1;
               num2 = parseFloat js g2;
               result = times js num1 num2
           in Some (product_reply (toLocaleString js num1) (toLocaleString js num2)
                      (toLocaleString js result)))
      | None \<Rightarrow>
          (let cleanMath = cleanMathOf content in
           if cleanMath \<noteq> [] \<and> math_only cleanMath then
             (case evalToLocaleString js cleanMath of
                Some r \<Rightarrow> Some (eval_reply r)
              | None \<Rightarrow> Some clarification)
           else None))"

text \<open>
  The cascade that computes \<^verbatim>\<open>aiResponse\<close> from \<^verbatim>\<open>content\<close> in the handler of
  \<^verbatim>\<open>POST /api/conversations/:id/messages\<close>; \<open>now\<close> is the \<^verbatim>\<open>new Date()\<close> of the
  time rule.
\<close>

definition generateReply :: "'n engine \<Rightarrow> date \<Rightarrow> string \<Rightarrow> string option" where
  "generateReply js now content =
     (let lowerContent = toLowerCase content in
      if math_rule lowerContent then math_branch js content
      else if greeting_rule lowerContent then Some greeting
      else if status_rule lowerContent then Some status_reply
      else if capability_rule lowerContent then Some capabilities
      else if gratitude_rule lowerContent then Some gratitude
      else if time_rule lowerContent then Some (time_reply now)
      else Some (fallback content))"

subsection \<open>An engine for decimal numerals\<close>

text \<open>
  A concrete engine to run the product rule on: a number is a decimal \<open>Decimal m s\<close>, the
  value \<open>m / 10\<^sup>s\<close>, multiplied exactly, and formatted as the locale \<^verbatim>\<open>en-US\<close> does
  (groups of three digits, at most three fraction digits, rounded half up). It agrees with
  IEEE double arithmetic whenever the operands and the product are integers below
  \<open>2\<^sup>5\<^sup>3\<close>. Its \<^verbatim>\<open>eval\<close> is left as a parameter.
\<close>

datatype decimal = Decimal nat nat

definition digit_val :: "char \<Rightarrow> nat" where
  "digit_val c = of_char c - 48"

definition digits_val :: "string \<Rightarrow> nat" where
  "digits_val ds = foldl (\<lambda>n c. 10 * n + digit_val c) 0 ds"

text \<open>\<^verbatim>\<open>parseFloat\<close> on the numerals the pattern captures.\<close>

definition parseFloat_dec :: "string \<Rightarrow> decimal" where
  "parseFloat_dec s =
     (let ip = takeWhile is_digit s;
          fp = (case dropWhile is_digit s of
                  c # r \<Rightarrow> if c = CHR ''.'' then takeWhile is_digit r else []
                | [] \<Rightarrow> [])
      in Decimal (digits_val (ip @ fp)) (length fp))"

fun times_dec :: "decimal \<Rightarrow> decimal \<Rightarrow> decimal" where
  "times_dec (Decimal m1 s1) (Decimal m2 s2) = Decimal (m1 * m2) (s1 + s2)"

definition digit_char :: "nat \<Rightarrow> char" where
  "digit_char d = char_of (48 + d)"

fun digits_of :: "nat \<Rightarrow> string" where
  "digits_of n = (if n < 10 then [digit_char n] else digits_of (n div 10) @ [digit_char (n mod 10)])"

declare digits_of.simps [simp del]

text \<open>Commas between groups of three digits, on the reversed digits.\<close>

fun group_rev :: "string \<Rightarrow> string" where
  "group_rev (a # b # c # d # r) = a # b # c # CHR '','' # group_rev (d # r)"
| "group_rev r = r"

definition fraction_digits :: "nat \<Rightarrow> string" where
  "fraction_digits f =
     (if f = 0 then []
      else ''.'' @ rev (dropWhile (\<lambda>c. c = CHR ''0'')
                        (rev [digit_char (f div 100), digit_char (f div 10 mod 10), digit_char (f mod 10)])))"

fun toLocaleString_dec :: "decimal \<Rightarrow> string" where
  "toLocaleString_dec (Decimal m s) =
     (let q = (2000 * m + 10 ^ s) div (2 * 10 ^ s) in
      rev (group_rev (rev (digits_of (q div 1000)))) @ fraction_digits (q mod 1000))"

definition decimal_engine :: "(string \<Rightarrow> string option) \<Rightarrow> decimal engine" where
  "decimal_engine ev =
     \<lparr>parseFloat = parseFloat_dec, times = times_dec, toLocaleString = toLocaleString_dec,
      evalToLocaleString = ev\<rparr>"

section \<open>The tables and the storage operations\<close>

text \<open>
  Identifiers are opaque strings that the database generates; here they are naturals drawn
  from a counter kept with the tables. A timestamp is the time value of a \<^verbatim>\<open>Date\<close>.
  The table declarations are not part of the sources at hand: the columns are the fields
  the code reads and writes, and what the declarations demand of a message row to insert is
  the parameter \<open>accepts\<close> of \<open>createMessage\<close>. A failure of the database connection is
  outside the model.

  Two records of one theory do not share a field name: the identifiers of the rows are
  \<open>uid\<close>, \<open>cid\<close> and \<open>mid\<close> (\<^verbatim>\<open>id\<close> in the source), and the creation time of a
  message is \<open>sentAt\<close> (\<^verbatim>\<open>createdAt\<close> in the source).
\<close>

type_synonym ident = nat
type_synonym timestamp = nat

record insert_user =
  username :: string
  password :: string

record user = insert_user +
  uid :: ident

datatype role = RoleUser | RoleAssistant

record insert_conversation =
  insTitle :: "string option"
  insUserId :: ident

record conversation =
  cid :: ident
  userId :: ident
  title :: string
  createdAt :: timestamp
  updatedAt :: timestamp

text \<open>\<^verbatim>\<open>Partial<Conversation>\<close>: \<open>None\<close> is a field that is not given.\<close>

record conversation_updates =
  setId :: "ident option"
  setUserId :: "ident option"
  setTitle :: "string option"
  setCreatedAt :: "timestamp option"
  setUpdatedAt :: "timestamp option"

text \<open>The content of a message to insert is \<open>None\<close> when the handler passes \<^verbatim>\<open>undefined\<close>.\<close>

record insert_message =
  conversationId :: ident
  content :: "string option"
  role :: role

record message = insert_message +
  mid :: ident
  sentAt :: timestamp

record db =
  users :: "user list"
  conversations :: "conversation list"
  messages :: "message list"
  nextId :: ident

datatype error = InsertRejected

definition getUserByUsername :: "db \<Rightarrow> string \<Rightarrow> user option" where
  "getUserByUsername d name = find (\<lambda>u. username u = name) (users d)"

text \<open>\<open>hash\<close> is \<^verbatim>\<open>bcrypt.hash(_, 10)\<close>.\<close>

definition createUser :: "(string \<Rightarrow> string) \<Rightarrow> db \<Rightarrow> insert_user \<Rightarrow> user \<times> db" where
  "createUser hash d userData =
     (let u = \<lparr>username = username userData, password = hash (password userData), uid = nextId d\<rparr>
      in (u, d\<lparr>users := users d @ [u], nextId := nextId d + 1\<rparr>))"

definition getConversation :: "db \<Rightarrow> ident \<Rightarrow> conversation option" where
  "getConversation d i = find (\<lambda>c. cid c = i) (conversations d)"

text \<open>\<open>dflt\<close> is the title a row gets when none is given; \<open>now\<close> is the time of the insertion.\<close>

definition createConversation ::
  "string \<Rightarrow> timestamp \<Rightarrow> db \<Rightarrow> insert_conversation \<Rightarrow> conversation \<times> db" where
  "createConversation dflt now d conversationData =
     (let c = \<lparr>cid = nextId d, userId = insUserId conversationData,
               title = (case insTitle conversationData of Some t \<Rightarrow> t | None \<Rightarrow> dflt),
               createdAt = now, updatedAt = now\<rparr>
      in (c, d\<lparr>conversations := conversations d @ [c], nextId := nextId d + 1\<rparr>))"

text \<open>
  The row after \<^verbatim>\<open>.set({...updates, updatedAt: new Date()})\<close>: the fields given, and the
  updated timestamp always the new reading \<open>now\<close>.
\<close>

definition applyUpdates :: "conversation_updates \<Rightarrow> timestamp \<Rightarrow> conversation \<Rightarrow> conversation" where
  "applyUpdates updates now c =
     \<lparr>cid = (case setId updates of Some i \<Rightarrow> i | None \<Rightarrow> cid c),
      userId = (case setUserId updates of Some u \<Rightarrow> u | None \<Rightarrow> userId c),
      title = (case setTitle updates of Some t \<Rightarrow> t | None \<Rightarrow> title c),
      createdAt = (case setCreatedAt updates of Some t \<Rightarrow> t | None \<Rightarrow> createdAt c),
      updatedAt = now\<rparr>"

definition updateConversation ::
  "timestamp \<Rightarrow> db \<Rightarrow> ident \<Rightarrow> conversation_updates \<Rightarrow> conversation option \<times> db" where
  "updateConversation now d i updates =
     (let returned = map (applyUpdates updates now) (filter (\<lambda>c. cid c = i) (conversations d));
          rows = map (\<lambda>c. if cid c = i then applyUpdates updates now c else c) (conversations d)
      in (case returned of [] \<Rightarrow> None | c # _ \<Rightarrow> Some c, d\<lparr>conversations := rows\<rparr>))"

definition noUpdates :: conversation_updates where
  "noUpdates = \<lparr>setId = None, setUserId = None, setTitle = None, setCreatedAt = None,
                setUpdatedAt = None\<rparr>"

text \<open>The two statements of \<open>deleteConversation\<close>, in the order the source runs them.\<close>

definition deleteMessagesOf :: "db \<Rightarrow> ident \<Rightarrow> db" where
  "deleteMessagesOf d i = d\<lparr>messages := filter (\<lambda>m. conversationId m \<noteq> i) (messages d)\<rparr>"

definition deleteConversationRow :: "db \<Rightarrow> ident \<Rightarrow> nat \<times> db" where
  "deleteConversationRow d i =
     (length (filter (\<lambda>c. cid c = i) (conversations d)),
      d\<lparr>conversations := filter (\<lambda>c. cid c \<noteq> i) (conversations d)\<rparr>)"

definition deleteConversation :: "db \<Rightarrow> ident \<Rightarrow> bool \<times> db" where
  "deleteConversation d i =
     (let d1 = deleteMessagesOf d i;
          (rowCount, d2) = deleteConversationRow d1 i
      in (if rowCount \<noteq> 0 then rowCount > 0 else False, d2))"

text \<open>Ordered by creation time; rows of equal time keep the order of their insertion.\<close>

definition getMessages :: "db \<Rightarrow> ident \<Rightarrow> message list" where
  "getMessages d i = sort_key sentAt (filter (\<lambda>m. conversationId m = i) (messages d))"

text \<open>
  \<open>createMessage\<close> inserts the row, unless the table rejects it and the insertion throws,
  and then touches the parent conversation. \<open>now\<close> is the time of the call.
\<close>

definition messageRow :: "timestamp \<Rightarrow> db \<Rightarrow> insert_message \<Rightarrow> message" where
  "messageRow now d messageData =
     \<lparr>conversationId = conversationId messageData, content = content messageData,
      role = role messageData, mid = nextId d, sentAt = now\<rparr>"

definition createMessage ::
  "(insert_message \<Rightarrow> bool) \<Rightarrow> timestamp \<Rightarrow> db \<Rightarrow> insert_message \<Rightarrow> error + message \<times> db" where
  "createMessage accepts now d messageData =
     (if \<not> accepts messageData then Inl InsertRejected
      else
        (let m = messageRow now d messageData;
             d1 = d\<lparr>messages := messages d @ [m], nextId := nextId d + 1\<rparr>;
             (_, d2) = updateConversation now d1 (conversationId messageData) noUpdates
         in Inr (m, d2)))"

section \<open>The request handlers\<close>

datatype body =
    Msg string
  | AuthBody ident string string
  | ConversationBody conversation
  | ReplyBody message message
  | ReplyErrorBody message message string

type_synonym response = "nat \<times> body"

text \<open>
  \<open>requireAuth\<close>: the caller of a protected route, or the response that ends the request.
  \<open>verifyToken\<close> gives the \<^verbatim>\<open>userId\<close> of the payload of a token that verifies.
\<close>

definition requireAuth :: "(string \<Rightarrow> ident option) \<Rightarrow> string option \<Rightarrow> response + ident" where
  "requireAuth verifyToken authHeader =
     (let token = (case authHeader of
                     Some h \<Rightarrow> if startsWith h ''Bearer '' then Some (drop 7 h) else None
                   | None \<Rightarrow> None)
      in case token of
           None \<Rightarrow> Inl (401, Msg ''Authentication required'')
         | Some t \<Rightarrow>
             if t = [] then Inl (401, Msg ''Authentication required'')
             else (case verifyToken t of
                     None \<Rightarrow> Inl (401, Msg ''Invalid or expired token'')
                   | Some u \<Rightarrow> Inr u))"

definition authenticated ::
  "(string \<Rightarrow> ident option) \<Rightarrow> string option \<Rightarrow> db \<Rightarrow> (ident \<Rightarrow> response \<times> db) \<Rightarrow> response \<times> db" where
  "authenticated verifyToken authHeader d handler =
     (case requireAuth verifyToken authHeader of Inl r \<Rightarrow> (r, d) | Inr u \<Rightarrow> handler u)"

text \<open>
  \<^verbatim>\<open>POST /api/auth/register\<close>. \<open>parseUser\<close> is \<^verbatim>\<open>insertUserSchema.parse\<close>, \<open>None\<close> when
  it throws.
\<close>

definition register ::
  "('b \<Rightarrow> insert_user option) \<Rightarrow> (string \<Rightarrow> string) \<Rightarrow> (ident \<Rightarrow> string) \<Rightarrow> db \<Rightarrow> 'b
     \<Rightarrow> response \<times> db" where
  "register parseUser hash generateToken d reqBody =
     (case parseUser reqBody of
        None \<Rightarrow> ((400, Msg ''Invalid user data''), d)
      | Some userData \<Rightarrow>
          (case getUserByUsername d (username userData) of
             Some existingUser \<Rightarrow> ((400, Msg ''Username already exists''), d)
           | None \<Rightarrow>
               (let (u, d') = createUser hash d userData;
                    token = generateToken (uid u)
                in ((200, AuthBody (uid u) (username u) token), d'))))"

text \<open>
  \<^verbatim>\<open>POST /api/conversations\<close>. \<open>parseConversation\<close> is
  \<^verbatim>\<open>insertConversationSchema.parse\<close>; what it returns may carry a title and a
  \<^verbatim>\<open>userId\<close>.
\<close>

record conversation_body =
  bodyTitle :: "string option"
  bodyUserId :: "ident option"

definition postConversation ::
  "('b \<Rightarrow> conversation_body option) \<Rightarrow> string \<Rightarrow> timestamp \<Rightarrow> db \<Rightarrow> ident \<Rightarrow> 'b
     \<Rightarrow> response \<times> db" where
  "postConversation parseConversation dflt now d reqUserId reqBody =
     (case parseConversation reqBody of
        None \<Rightarrow> ((400, Msg ''Invalid conversation data''), d)
      | Some data \<Rightarrow>
          (let conversationData = \<lparr>insTitle = bodyTitle data, insUserId = reqUserId\<rparr>;
               (c, d') = createConversation dflt now d conversationData
           in ((200, ConversationBody c), d')))"

definition postConversationRoute ::
  "(string \<Rightarrow> ident option) \<Rightarrow> ('b \<Rightarrow> conversation_body option) \<Rightarrow> string \<Rightarrow> timestamp \<Rightarrow> db
     \<Rightarrow> string option \<Rightarrow> 'b \<Rightarrow> response \<times> db" where
  "postConversationRoute verifyToken parseConversation dflt now d authHeader reqBody =
     authenticated verifyToken authHeader d
       (\<lambda>u. postConversation parseConversation dflt now d u reqBody)"

text \<open>\<^verbatim>\<open>GET /api/conversations/:id\<close>\<close>

definition getConversationById :: "db \<Rightarrow> ident \<Rightarrow> ident \<Rightarrow> response" where
  "getConversationById d reqUserId i =
     (case getConversation d i of
        None \<Rightarrow> (404, Msg ''Conversation not found'')
      | Some c \<Rightarrow>
          if userId c \<noteq> reqUserId then (403, Msg ''Access denied'')
          else (200, ConversationBody c))"

definition getConversationRoute ::
  "(string \<Rightarrow> ident option) \<Rightarrow> db \<Rightarrow> string option \<Rightarrow> ident \<Rightarrow> response" where
  "getConversationRoute verifyToken d authHeader i =
     (case requireAuth verifyToken authHeader of
        Inl r \<Rightarrow> r
      | Inr u \<Rightarrow> getConversationById d u i)"

text \<open>\<^verbatim>\<open>DELETE /api/conversations/:id\<close>\<close>

definition deleteConversationById :: "db \<Rightarrow> ident \<Rightarrow> ident \<Rightarrow> response \<times> db" where
  "deleteConversationById d reqUserId i =
     (case getConversation d i of
        None \<Rightarrow> ((404, Msg ''Conversation not found''), d)
      | Some c \<Rightarrow>
          if userId c \<noteq> reqUserId then ((403, Msg ''Access denied''), d)
          else
            (let (deleted, d') = deleteConversation d i in
             if \<not> deleted then ((404, Msg ''Conversation not found''), d')
             else ((200, Msg ''Conversation deleted successfully''), d')))"

text \<open>
  \<^verbatim>\<open>POST /api/conversations/:id/messages\<close>. The handler reads the clock at several
  places; \<open>clock\<close> gives the \<^verbatim>\<open>Date\<close> read at each of them.
\<close>

datatype tick =
    AtUserMessage | AtReply | AtAiMessage | AtTitle | AtTouchArg | AtTouch | AtErrorMessage

definition apology :: string where
  "apology =
     ''I'' @ [CHR 0x27] @ ''m sorry, I'' @ [CHR 0x27]
     @ ''m having trouble generating a response right now. Please try again in a moment.''"

text \<open>\<^verbatim>\<open>content.length > 50 ? content.substring(0, 50) + "..." : content\<close>\<close>

definition titleOf :: "string \<Rightarrow> string" where
  "titleOf msgText = (if length msgText > 50 then take 50 msgText @ ''...'' else msgText)"

text \<open>
  The inner \<^verbatim>\<open>try\<close> block: the reply is computed and saved, the title is set when the
  conversation holds one message, the conversation is touched, and the answer is 200.
  \<open>Inl\<close> is an exception that leaves the block; \<open>msgs\<close> is the history read after the
  user message was saved. (The source also maps the history without its last message to
  \<^verbatim>\<open>conversationHistory\<close>, which nothing reads.)
\<close>

definition respond ::
  "'n engine \<Rightarrow> (insert_message \<Rightarrow> bool) \<Rightarrow> (tick \<Rightarrow> date) \<Rightarrow> db \<Rightarrow> ident \<Rightarrow> string \<Rightarrow> message
     \<Rightarrow> message list \<Rightarrow> error + response \<times> db" where
  "respond js accepts clock d1 i msgText userMessage msgs =
     (let aiResponse = generateReply js (clock AtReply) msgText in
      case createMessage accepts (getTime (clock AtAiMessage)) d1
             \<lparr>conversationId = i, content = aiResponse, role = RoleAssistant\<rparr> of
        Inl e \<Rightarrow> Inl e
      | Inr (aiMessage, d2) \<Rightarrow>
          (let d3 = (if length msgs = 1
                     then snd (updateConversation (getTime (clock AtTitle)) d2 i
                                 (noUpdates\<lparr>setTitle := Some (titleOf msgText)\<rparr>))
                     else d2);
               d4 = snd (updateConversation (getTime (clock AtTouch)) d3 i
                           (noUpdates\<lparr>setUpdatedAt := Some (getTime (clock AtTouchArg))\<rparr>))
           in Inr ((200, ReplyBody userMessage aiMessage), d4)))"

text \<open>The \<^verbatim>\<open>catch\<close> of the inner block: the apology is saved and sent with status 500.\<close>

definition recover ::
  "(insert_message \<Rightarrow> bool) \<Rightarrow> (tick \<Rightarrow> date) \<Rightarrow> db \<Rightarrow> ident \<Rightarrow> message \<Rightarrow> error + response \<times> db" where
  "recover accepts clock d1 i userMessage =
     (case createMessage accepts (getTime (clock AtErrorMessage)) d1
             \<lparr>conversationId = i, content = Some apology, role = RoleAssistant\<rparr> of
        Inl e \<Rightarrow> Inl e
      | Inr (errorMessage, d2) \<Rightarrow>
          Inr ((500, ReplyErrorBody userMessage errorMessage
                       ''Response generation temporarily unavailable''), d2))"

text \<open>
  The handler after \<open>requireAuth\<close>. \<open>reqContent\<close> is \<open>None\<close> when the body has no
  \<^verbatim>\<open>content\<close> or one that is not a string.
\<close>

definition sendMessage ::
  "'n engine \<Rightarrow> (insert_message \<Rightarrow> bool) \<Rightarrow> (tick \<Rightarrow> date) \<Rightarrow> db \<Rightarrow> ident \<Rightarrow> ident
     \<Rightarrow> string option \<Rightarrow> response \<times> db" where
  "sendMessage js accepts clock d reqUserId i reqContent =
     (case reqContent of
        None \<Rightarrow> ((400, Msg ''Message content is required''), d)
      | Some msgText \<Rightarrow>
          if msgText = [] then ((400, Msg ''Message content is required''), d)
          else
            (case getConversation d i of
               None \<Rightarrow> ((404, Msg ''Conversation not found''), d)
             | Some c \<Rightarrow>
                 if userId c \<noteq> reqUserId then ((403, Msg ''Access denied''), d)
                 else
                   (case createMessage accepts (getTime (clock AtUserMessage)) d
                          \<lparr>conversationId = i, content = Some msgText, role = RoleUser\<rparr> of
                      Inl e \<Rightarrow> ((500, Msg ''Failed to process message''), d)
                    | Inr (userMessage, d1) \<Rightarrow>
                        (let msgs = getMessages d1 i in
                         case respond js accepts clock d1 i msgText userMessage msgs of
                           Inr out \<Rightarrow> out
                         | Inl e \<Rightarrow>
                             (case recover accepts clock d1 i userMessage of
                                Inr out \<Rightarrow> out
                              | Inl e' \<Rightarrow> ((500, Msg ''Failed to process message''), d1))))))"

section \<open>Sample data\<close>

text \<open>
  Concrete requests for the properties below to be run on: two users, one conversation of
  the first user, tokens for both, a table that requires the content of a message, and a
  clock that stands still.
\<close>

definition sampleDb :: db where
  "sampleDb =
     \<lparr>users = [\<lparr>username = ''ada'', password = ''$2a$10$h1'', uid = 1\<rparr>,
               \<lparr>username = ''bob'', password = ''$2a$10$h2'', uid = 2\<rparr>],
      conversations = [\<lparr>cid = 7, userId = 1, title = ''New Conversation'', createdAt = 5,
                        updatedAt = 5\<rparr>],
      messages = [], nextId = 8\<rparr>"

definition sampleVerify :: "string \<Rightarrow> ident option" where
  "sampleVerify t =
     (if t = ''token-ada'' then Some 1 else if t = ''token-bob'' then Some 2 else None)"

definition notNull :: "insert_message \<Rightarrow> bool" where
  "notNull m = (content m \<noteq> None)"

definition sampleEngine :: "decimal engine" where
  "sampleEngine = decimal_engine (\<lambda>s. None)"

definition sampleClock :: "tick \<Rightarrow> date" where
  "sampleClock t = \<lparr>getTime = 10, toLocaleTimeString = ''12:00:00 PM'', toLocaleDateString = ''1/1/1970''\<rparr>"



section \<open>Facts about the string operations and the reply rules\<close>

lemma startsWith_append: "startsWith (t @ s) t"
  by (induction t) auto

lemma startsWith_includes: "startsWith s t \<Longrightarrow> str_includes s t"
  by (cases s; cases t) auto

lemma str_includes_append: "str_includes (p @ t @ s) t"
  by (induction p) (auto simp: startsWith_includes startsWith_append)

lemma fallback_echo: "str_includes (fallback msgText) msgText"
  unfolding fallback_def by (rule str_includes_append)

lemma no_rule_fallback:
  "\<not> math_rule (toLowerCase msgText) \<Longrightarrow> \<not> greeting_rule (toLowerCase msgText)
   \<Longrightarrow> \<not> status_rule (toLowerCase msgText) \<Longrightarrow> \<not> capability_rule (toLowerCase msgText)
   \<Longrightarrow> \<not> gratitude_rule (toLowerCase msgText) \<Longrightarrow> \<not> time_rule (toLowerCase msgText)
   \<Longrightarrow> generateReply js now msgText = Some (fallback msgText)"
  by (simp add: generateReply_def Let_def)

lemma product_12_4:
  "generateReply (decimal_engine ev) now ''what is 12 x 4?'' = Some (product_reply ''12'' ''4'' ''48'')"
  by code_simp

lemma product_12_4_shows_48: "str_includes (product_reply ''12'' ''4'' ''48'') ''48''"
  by code_simp

lemma hello_greeting: "generateReply js now ''hello'' = Some greeting"
  by code_simp

lemma thank_you_gratitude: "generateReply js now ''thank you'' = Some gratitude"
  by code_simp

text \<open>
  What the math rule assigns when there is no product: nothing when the text has no digit and
  no operator character besides the letter that triggered the rule, the clarification when
  the evaluation throws.
\<close>

lemma math_branch_empty:
  "mathMatch msgText = None \<Longrightarrow> cleanMathOf msgText = [] \<Longrightarrow> math_branch js msgText = None"
  by (simp add: math_branch_def)

lemma math_only_cleanMathOf: "cleanMathOf msgText \<noteq> [] \<Longrightarrow> math_only (cleanMathOf msgText)"
  by (simp add: math_only_def cleanMathOf_def list_all_iff)

lemma math_branch_eval_fails:
  "mathMatch msgText = None \<Longrightarrow> cleanMathOf msgText \<noteq> [] \<Longrightarrow>
   evalToLocaleString js (cleanMathOf msgText) = None \<Longrightarrow> math_branch js msgText = Some clarification"
  by (simp add: math_branch_def math_only_cleanMathOf)

section \<open>Facts about the storage operations\<close>

lemma cid_applyUpdates: "setId u = None \<Longrightarrow> cid (applyUpdates u now c) = cid c"
  by (simp add: applyUpdates_def)

lemma find_update_rows:
  assumes "\<And>c. cid (f c) = cid c"
  shows "find (\<lambda>c. cid c = j) (map (\<lambda>c. if cid c = i then f c else c) cs) =
         (if j = i then map_option f (find (\<lambda>c. cid c = j) cs) else find (\<lambda>c. cid c = j) cs)"
  by (induction cs) (auto simp: assms)

lemma getConversation_updateConversation:
  "setId u = None \<Longrightarrow>
   getConversation (snd (updateConversation now d i u)) j =
     (if j = i then map_option (applyUpdates u now) (getConversation d j) else getConversation d j)"
  unfolding getConversation_def updateConversation_def
  by (simp add: Let_def find_update_rows cid_applyUpdates)

lemma messages_updateConversation [simp]:
  "messages (snd (updateConversation now d i u)) = messages d"
  by (simp add: updateConversation_def Let_def)

lemma users_updateConversation [simp]:
  "users (snd (updateConversation now d i u)) = users d"
  by (simp add: updateConversation_def Let_def)


lemma noUpdates_fields [simp]:
  "setId noUpdates = None" "setTitle noUpdates = None"
  by (simp_all add: noUpdates_def)


lemma messageRow_fields [simp]:
  "conversationId (messageRow now d m) = conversationId m"
  "content (messageRow now d m) = content m"
  "role (messageRow now d m) = role m"
  by (simp_all add: messageRow_def)

lemma createMessage_accepted:
  "accepts m \<Longrightarrow>
   createMessage accepts now d m =
     Inr (messageRow now d m,
          snd (updateConversation now
                 (d\<lparr>messages := messages d @ [messageRow now d m], nextId := nextId d + 1\<rparr>)
                 (conversationId m) noUpdates))"
  by (simp add: createMessage_def Let_def split: prod.splits)

lemma createMessage_rejected: "\<not> accepts m \<Longrightarrow> createMessage accepts now d m = Inl InsertRejected"
  by (simp add: createMessage_def)

lemma getConversation_insert [simp]:
  "getConversation (d\<lparr>messages := ms, nextId := n\<rparr>) j = getConversation d j"
  by (simp add: getConversation_def)

lemma createMessage_Inr:
  assumes "createMessage accepts now d m = Inr (msg, d')"
  shows "accepts m" and "msg = messageRow now d m"
    and "d' = snd (updateConversation now
                    (d\<lparr>messages := messages d @ [messageRow now d m], nextId := nextId d + 1\<rparr>)
                    (conversationId m) noUpdates)"
  using assms
  by (auto simp: createMessage_def Let_def split: if_splits prod.splits)

lemma getConversation_createMessage:
  assumes "createMessage accepts now d m = Inr (msg, d')"
  shows "getConversation d' j =
           (if j = conversationId m then map_option (applyUpdates noUpdates now) (getConversation d j)
            else getConversation d j)"
proof -
  have n: "setId noUpdates = None" by (simp add: noUpdates_def)
  show ?thesis
    unfolding createMessage_Inr(3) [OF assms] getConversation_updateConversation [OF n]
    by simp
qed


lemma messages_createMessage:
  assumes "createMessage accepts now d m = Inr (msg, d')"
  shows "messages d' = messages d @ [msg]"
  unfolding createMessage_Inr(3) [OF assms] createMessage_Inr(2) [OF assms]
  by simp


lemma set_getMessages:
  "set (getMessages d j) = {m \<in> set (messages d). conversationId m = j}"
  by (auto simp: getMessages_def)


lemma getMessages_deleteMessagesOf: "getMessages (deleteMessagesOf d i) i = []"
  by (simp add: getMessages_def deleteMessagesOf_def)

lemma find_filter_other: "find (\<lambda>c. cid c = i) (filter (\<lambda>c. cid c \<noteq> i) cs) = None"
  by (simp add: find_None_iff)

lemma length_filter_pos_find: "(0 < length (filter P xs)) = (find P xs \<noteq> None)"
  by (induction xs) auto

section \<open>Facts about the handlers\<close>

lemma requireAuth_bearer:
  "requireAuth verifyToken (Some (''Bearer '' @ t)) =
     (if t = [] then Inl (401, Msg ''Authentication required'')
      else case verifyToken t of
             None \<Rightarrow> Inl (401, Msg ''Invalid or expired token'')
           | Some u \<Rightarrow> Inr u)"
  by (simp add: requireAuth_def)

lemma delete_existence_before_ownership:
  "(getConversation d i = None \<longrightarrow> fst (fst (deleteConversationById d u i)) = 404)
   \<and> (getConversation d i = Some c \<and> userId c \<noteq> u
        \<longrightarrow> fst (fst (deleteConversationById d u i)) = 403)"
  by (simp add: deleteConversationById_def)







section \<open>The reply rules: claims C1, C2 and C9\<close>

text \<open>
  C1. The reply is computed by an ordered cascade in which the first rule that matches
  wins. The text \<^verbatim>\<open>what is 12 x 4?\<close> gets the product reply, which contains the value
  \<open>48\<close>; \<^verbatim>\<open>hello\<close> gets the fixed greeting; \<^verbatim>\<open>thank you\<close> gets the fixed
  acknowledgment of gratitude; and a text that matches no rule gets the fallback reply, in
  which the text itself occurs.
\<close>

theorem reply_rule_cascade:
  "generateReply (decimal_engine ev) now ''what is 12 x 4?'' = Some (product_reply ''12'' ''4'' ''48'')
   \<and> str_includes (product_reply ''12'' ''4'' ''48'') ''48''
   \<and> generateReply js now ''hello'' = Some greeting
   \<and> generateReply js now ''thank you'' = Some gratitude
   \<and> (\<not> math_rule (toLowerCase msgText) \<and> \<not> greeting_rule (toLowerCase msgText)
        \<and> \<not> status_rule (toLowerCase msgText) \<and> \<not> capability_rule (toLowerCase msgText)
        \<and> \<not> gratitude_rule (toLowerCase msgText) \<and> \<not> time_rule (toLowerCase msgText)
      \<longrightarrow> generateReply js now msgText = Some (fallback msgText)
          \<and> str_includes (fallback msgText) msgText)"
proof (intro conjI impI)
  show "generateReply (decimal_engine ev) now ''what is 12 x 4?'' = Some (product_reply ''12'' ''4'' ''48'')"
    by (rule product_12_4)
  show "str_includes (product_reply ''12'' ''4'' ''48'') ''48''"
    by (rule product_12_4_shows_48)
  show "generateReply js now ''hello'' = Some greeting"
    by (rule hello_greeting)
  show "generateReply js now ''thank you'' = Some gratitude"
    by (rule thank_you_gratitude)
next
  assume "\<not> math_rule (toLowerCase msgText) \<and> \<not> greeting_rule (toLowerCase msgText)
        \<and> \<not> status_rule (toLowerCase msgText) \<and> \<not> capability_rule (toLowerCase msgText)
        \<and> \<not> gratitude_rule (toLowerCase msgText) \<and> \<not> time_rule (toLowerCase msgText)"
  then show "generateReply js now msgText = Some (fallback msgText)"
    by (elim conjE) (rule no_rule_fallback)
next
  show "str_includes (fallback msgText) msgText"
    by (rule fallback_echo)
qed

theorem reply_rule_cascade_witness:
  "(\<not> math_rule (toLowerCase ''good morning'') \<and> \<not> greeting_rule (toLowerCase ''good morning'')
   \<and> \<not> status_rule (toLowerCase ''good morning'') \<and> \<not> capability_rule (toLowerCase ''good morning'')
   \<and> \<not> gratitude_rule (toLowerCase ''good morning'') \<and> \<not> time_rule (toLowerCase ''good morning''))
   \<and> generateReply (decimal_engine (\<lambda>s. None)) (sampleClock AtReply) ''good morning'' = Some (fallback ''good morning'')
   \<and> str_includes (fallback ''good morning'') ''good morning''"
proof -
  have h1: "\<not> math_rule (toLowerCase ''good morning'')" by code_simp
  have h2: "\<not> greeting_rule (toLowerCase ''good morning'')" by code_simp
  have h3: "\<not> status_rule (toLowerCase ''good morning'')" by code_simp
  have h4: "\<not> capability_rule (toLowerCase ''good morning'')" by code_simp
  have h5: "\<not> gratitude_rule (toLowerCase ''good morning'')" by code_simp
  have h6: "\<not> time_rule (toLowerCase ''good morning'')" by code_simp
  have h: "\<not> math_rule (toLowerCase ''good morning'') \<and> \<not> greeting_rule (toLowerCase ''good morning'')
   \<and> \<not> status_rule (toLowerCase ''good morning'') \<and> \<not> capability_rule (toLowerCase ''good morning'')
   \<and> \<not> gratitude_rule (toLowerCase ''good morning'') \<and> \<not> time_rule (toLowerCase ''good morning'')"
    by (intro conjI h1 h2 h3 h4 h5 h6)
  note r = reply_rule_cascade [of "\<lambda>s. None" "sampleClock AtReply" "decimal_engine (\<lambda>s. None)" "''good morning''"]
  from r have i: "\<not> math_rule (toLowerCase ''good morning'') \<and> \<not> greeting_rule (toLowerCase ''good morning'')
   \<and> \<not> status_rule (toLowerCase ''good morning'') \<and> \<not> capability_rule (toLowerCase ''good morning'')
   \<and> \<not> gratitude_rule (toLowerCase ''good morning'') \<and> \<not> time_rule (toLowerCase ''good morning'')
   \<longrightarrow> generateReply (decimal_engine (\<lambda>s. None)) (sampleClock AtReply) ''good morning'' = Some (fallback ''good morning'')
     \<and> str_includes (fallback ''good morning'') ''good morning''"
    by (elim conjE)
  from i h have "generateReply (decimal_engine (\<lambda>s. None)) (sampleClock AtReply) ''good morning'' = Some (fallback ''good morning'')
     \<and> str_includes (fallback ''good morning'') ''good morning''"
    by (rule mp)
  with h show ?thesis by (rule conjI)
qed

text \<open>
  C2. The claim is that a text with an operator token, no product pattern and a remainder
  that does not evaluate always gets the clarification. The text \<^verbatim>\<open>explain\<close> contains
  the letter \<^verbatim>\<open>x\<close>, has no product pattern, and nothing is left of it after the
  stripping; for it the cascade assigns no reply at all: the result is \<^verbatim>\<open>undefined\<close>.
\<close>

theorem math_rule_leaves_reply_undefined:
  "math_rule (toLowerCase ''explain'') \<and> mathMatch ''explain'' = None
   \<and> cleanMathOf ''explain'' = [] \<and> generateReply js now ''explain'' = None"
  by code_simp

text \<open>
  C9. The claim is that the reply depends on the text alone. The time rule reads the
  clock: the same text gets two replies at two readings.
\<close>

theorem reply_depends_on_clock:
  "generateReply (decimal_engine (\<lambda>s. None))
     \<lparr>getTime = 0, toLocaleTimeString = ''12:00:00 AM'', toLocaleDateString = ''1/1/1970''\<rparr>
     ''what time is it''
   \<noteq> generateReply (decimal_engine (\<lambda>s. None))
     \<lparr>getTime = 1000, toLocaleTimeString = ''12:00:01 AM'', toLocaleDateString = ''1/1/1970''\<rparr>
     ''what time is it''"
  by code_simp

text \<open>
  C9, as the code has it: for a text that does not reach the time rule (an earlier rule
  matches, or the time rule does not), the reply is the same at any two clock readings.
\<close>

theorem reply_function_of_text:
  assumes "math_rule (toLowerCase msgText) \<or> greeting_rule (toLowerCase msgText)
     \<or> status_rule (toLowerCase msgText) \<or> capability_rule (toLowerCase msgText)
     \<or> gratitude_rule (toLowerCase msgText) \<or> \<not> time_rule (toLowerCase msgText)"
  shows "generateReply js now msgText = generateReply js now' msgText"
  using assms by (auto simp: generateReply_def Let_def)

theorem reply_function_of_text_witness:
  "generateReply (decimal_engine (\<lambda>s. None))
     \<lparr>getTime = 0, toLocaleTimeString = ''12:00:00 AM'', toLocaleDateString = ''1/1/1970''\<rparr>
     ''what is 12 x 4?''
   = generateReply (decimal_engine (\<lambda>s. None))
     \<lparr>getTime = 1000, toLocaleTimeString = ''12:00:01 AM'', toLocaleDateString = ''1/1/1970''\<rparr>
     ''what is 12 x 4?''"
proof -
  have "math_rule (toLowerCase ''what is 12 x 4?'')" by code_simp
  then show ?thesis by (intro reply_function_of_text disjI1)
qed

section \<open>The storage operations: claims C6 and C7\<close>

text \<open>
  C6. When \<open>createMessage\<close> stores a message of an existing conversation, the updated
  timestamp of that conversation becomes the time of the call, so it is not smaller than
  before, the clock not running backwards.
\<close>

theorem createMessage_bumps_updatedAt:
  assumes "accepts m" and "getConversation d (conversationId m) = Some c" and "updatedAt c \<le> now"
  shows "\<exists>msg d' c'. createMessage accepts now d m = Inr (msg, d')
            \<and> getConversation d' (conversationId m) = Some c'
            \<and> updatedAt c' = now \<and> updatedAt c \<le> updatedAt c'"
proof -
  obtain msg d' where r: "createMessage accepts now d m = Inr (msg, d')"
    using assms(1) by (simp add: createMessage_accepted)
  have "getConversation d' (conversationId m) = Some (applyUpdates noUpdates now c)"
    using getConversation_createMessage [OF r, of "conversationId m"] assms(2) by simp
  moreover have "updatedAt (applyUpdates noUpdates now c) = now"
    by (simp add: applyUpdates_def)
  ultimately show ?thesis using r assms(3) by simp
qed

theorem createMessage_bumps_updatedAt_witness:
  "\<exists>msg d' c'. createMessage notNull 10 sampleDb
                   \<lparr>conversationId = 7, content = Some ''hello'', role = RoleUser\<rparr> = Inr (msg, d')
      \<and> getConversation d' 7 = Some c' \<and> updatedAt c' = 10 \<and> (5::nat) \<le> updatedAt c'"
proof -
  have a: "notNull \<lparr>conversationId = 7, content = Some ''hello'', role = RoleUser\<rparr>"
    by (simp add: notNull_def)
  obtain c where c: "getConversation sampleDb 7 = Some c" and t: "updatedAt c = 5"
    by (simp add: getConversation_def sampleDb_def)
  have l: "updatedAt c \<le> 10" using t by simp
  from createMessage_bumps_updatedAt [where accepts = notNull and now = 10 and d = sampleDb
      and m = "\<lparr>conversationId = 7, content = Some ''hello'', role = RoleUser\<rparr>" and c = c]
    a c l t
  show ?thesis by auto
qed

text \<open>
  C7. \<open>deleteConversation\<close> first deletes the messages of the conversation (after that
  step the conversation has no message and the conversation rows are untouched), then the
  conversation row; it returns whether a row with that identifier existed; afterwards
  \<open>getMessages\<close> for the identifier is empty and the conversation is gone.
\<close>

theorem deleteConversation_cascade:
  "getMessages (deleteMessagesOf d i) i = []
   \<and> conversations (deleteMessagesOf d i) = conversations d
   \<and> deleteConversation d i =
       (getConversation d i \<noteq> None, snd (deleteConversationRow (deleteMessagesOf d i) i))
   \<and> getMessages (snd (deleteConversation d i)) i = []
   \<and> getConversation (snd (deleteConversation d i)) i = None"
proof (intro conjI)
  show "getMessages (deleteMessagesOf d i) i = []" by (rule getMessages_deleteMessagesOf)
  show "conversations (deleteMessagesOf d i) = conversations d" by (simp add: deleteMessagesOf_def)
  show "deleteConversation d i =
       (getConversation d i \<noteq> None, snd (deleteConversationRow (deleteMessagesOf d i) i))"
    using length_filter_pos_find [of "\<lambda>c. cid c = i" "conversations d"]
    by (simp add: deleteConversation_def deleteConversationRow_def deleteMessagesOf_def Let_def
          getConversation_def)
  show "getMessages (snd (deleteConversation d i)) i = []"
    by (simp add: deleteConversation_def deleteConversationRow_def deleteMessagesOf_def Let_def
          getMessages_def)
  show "getConversation (snd (deleteConversation d i)) i = None"
    by (simp add: deleteConversation_def deleteConversationRow_def deleteMessagesOf_def Let_def
          getConversation_def find_filter_other)
qed

section \<open>The handlers: claims C3, C4, C5, C8 and C10\<close>

text \<open>
  C3. For an authenticated \<^verbatim>\<open>GET /api/conversations/:id\<close> the existence of the
  conversation is checked before its owner: the answer is 404 when no conversation has the
  identifier, and 403 when one has it and belongs to somebody else.
\<close>

theorem existence_before_ownership:
  assumes "requireAuth verifyToken authHeader = Inr u"
  shows "(getConversation d i = None
            \<longrightarrow> fst (getConversationRoute verifyToken d authHeader i) = 404)
       \<and> (\<forall>c. getConversation d i = Some c \<and> userId c \<noteq> u
            \<longrightarrow> fst (getConversationRoute verifyToken d authHeader i) = 403)"
  using assms by (simp add: getConversationRoute_def getConversationById_def)

theorem existence_before_ownership_witness:
  "requireAuth sampleVerify (Some ''Bearer token-bob'') = Inr 2
   \<and> getConversation sampleDb 99 = None
   \<and> fst (getConversationRoute sampleVerify sampleDb (Some ''Bearer token-bob'') 99) = 404
   \<and> map_option userId (getConversation sampleDb 7) = Some 1
   \<and> fst (getConversationRoute sampleVerify sampleDb (Some ''Bearer token-bob'') 7) = 403"
proof -
  have a: "requireAuth sampleVerify (Some ''Bearer token-bob'') = Inr 2" by code_simp
  have n: "getConversation sampleDb 99 = None" by code_simp
  obtain c where c: "getConversation sampleDb 7 = Some c" and o: "userId c = 1"
    by (simp add: getConversation_def sampleDb_def)
  from o have o2: "userId c \<noteq> 2" by simp
  from existence_before_ownership [OF a, of sampleDb 99] n
  have r1: "fst (getConversationRoute sampleVerify sampleDb (Some ''Bearer token-bob'') 99) = 404"
    by blast
  from existence_before_ownership [OF a, of sampleDb 7] c o2
  have r2: "fst (getConversationRoute sampleVerify sampleDb (Some ''Bearer token-bob'') 7) = 403"
    by blast
  from a n r1 r2 c o show ?thesis by simp
qed

text \<open>
  C4. When saving the generated reply fails in \<^verbatim>\<open>POST /api/conversations/:id/messages\<close>,
  the apology is saved as the message of the assistant and the answer is 500 with the user
  message, which is already saved, and the apology: the conversation ends with the user
  message followed by the apology.
\<close>

theorem reply_failure_recovered:
  assumes "msgText \<noteq> []" and "getConversation d i = Some c" and "userId c = u"
    and "accepts \<lparr>conversationId = i, content = Some msgText, role = RoleUser\<rparr>"
    and "\<not> accepts \<lparr>conversationId = i, content = generateReply js (clock AtReply) msgText,
                      role = RoleAssistant\<rparr>"
    and "accepts \<lparr>conversationId = i, content = Some apology, role = RoleAssistant\<rparr>"
  shows "\<exists>userMessage errorMessage d'.
           sendMessage js accepts clock d u i (Some msgText)
             = ((500, ReplyErrorBody userMessage errorMessage
                        ''Response generation temporarily unavailable''), d')
         \<and> conversationId userMessage = i \<and> content userMessage = Some msgText
         \<and> role userMessage = RoleUser
         \<and> conversationId errorMessage = i \<and> content errorMessage = Some apology
         \<and> role errorMessage = RoleAssistant
         \<and> messages d' = messages d @ [userMessage, errorMessage]
         \<and> userMessage \<in> set (getMessages d' i) \<and> errorMessage \<in> set (getMessages d' i)"
proof -
  obtain userMessage d1 where
    cm: "createMessage accepts (getTime (clock AtUserMessage)) d
           \<lparr>conversationId = i, content = Some msgText, role = RoleUser\<rparr> = Inr (userMessage, d1)"
    using createMessage_accepted [of accepts _ "getTime (clock AtUserMessage)" d, OF assms(4)] by blast
  have rs: "respond js accepts clock d1 i msgText userMessage (getMessages d1 i) = Inl InsertRejected"
    using assms(5) by (simp add: respond_def createMessage_def)
  obtain errorMessage d2 where
    ce: "createMessage accepts (getTime (clock AtErrorMessage)) d1
           \<lparr>conversationId = i, content = Some apology, role = RoleAssistant\<rparr> = Inr (errorMessage, d2)"
    using createMessage_accepted [of accepts _ "getTime (clock AtErrorMessage)" d1, OF assms(6)] by blast
  have rc: "recover accepts clock d1 i userMessage
              = Inr ((500, ReplyErrorBody userMessage errorMessage
                             ''Response generation temporarily unavailable''), d2)"
    using ce by (simp add: recover_def)
  have s: "sendMessage js accepts clock d u i (Some msgText)
             = ((500, ReplyErrorBody userMessage errorMessage
                        ''Response generation temporarily unavailable''), d2)"
    using assms(1,2,3) cm rs rc by (simp add: sendMessage_def)
  have um: "userMessage = messageRow (getTime (clock AtUserMessage)) d
              \<lparr>conversationId = i, content = Some msgText, role = RoleUser\<rparr>"
    by (rule createMessage_Inr(2) [OF cm])
  have em: "errorMessage = messageRow (getTime (clock AtErrorMessage)) d1
              \<lparr>conversationId = i, content = Some apology, role = RoleAssistant\<rparr>"
    by (rule createMessage_Inr(2) [OF ce])
  have ms: "messages d2 = messages d @ [userMessage, errorMessage]"
    using messages_createMessage [OF cm] messages_createMessage [OF ce] by simp
  have f: "conversationId userMessage = i" "content userMessage = Some msgText"
    "role userMessage = RoleUser" "conversationId errorMessage = i"
    "content errorMessage = Some apology" "role errorMessage = RoleAssistant"
    unfolding um em by simp_all
  have mem: "userMessage \<in> set (getMessages d2 i)" "errorMessage \<in> set (getMessages d2 i)"
    using f(1,4) by (simp_all add: set_getMessages ms)
  from s f ms mem show ?thesis by blast
qed

theorem reply_failure_recovered_witness:
  "\<exists>userMessage errorMessage d'.
     sendMessage sampleEngine notNull sampleClock sampleDb 1 7 (Some ''explain'')
       = ((500, ReplyErrorBody userMessage errorMessage
                  ''Response generation temporarily unavailable''), d')
     \<and> content userMessage = Some ''explain'' \<and> content errorMessage = Some apology
     \<and> messages d' = messages sampleDb @ [userMessage, errorMessage]"
proof -
  have a1: "''explain'' \<noteq> []" by simp
  obtain c where a2: "getConversation sampleDb 7 = Some c" and a3: "userId c = 1"
    by (simp add: getConversation_def sampleDb_def)
  have a4: "notNull \<lparr>conversationId = 7, content = Some ''explain'', role = RoleUser\<rparr>"
    by (simp add: notNull_def)
  have g: "generateReply sampleEngine (sampleClock AtReply) ''explain'' = None"
    by code_simp
  have a5: "\<not> notNull \<lparr>conversationId = 7,
      content = generateReply sampleEngine (sampleClock AtReply) ''explain'', role = RoleAssistant\<rparr>"
    unfolding g by (simp add: notNull_def)
  have a6: "notNull \<lparr>conversationId = 7, content = Some apology, role = RoleAssistant\<rparr>"
    by (simp add: notNull_def)
  from reply_failure_recovered [where accepts = notNull and js = sampleEngine
      and clock = sampleClock and d = sampleDb and i = 7 and u = 1 and c = c
      and msgText = "''explain''", OF a1 a2 a3 a4 a5 a6]
  show ?thesis by blast
qed




text \<open>
  C8. A registration whose username is already taken is answered with 400 and the message
  that the username exists, whatever the password, and the tables are left as they were.
\<close>

theorem register_duplicate_username:
  assumes "parseUser reqBody = Some userData"
    and "existingUser \<in> set (users d)" and "username existingUser = username userData"
  shows "register parseUser hash generateToken d reqBody
           = ((400, Msg ''Username already exists''), d)"
proof -
  from assms(2,3) have "find (\<lambda>u. username u = username userData) (users d) \<noteq> None"
    by (auto simp: find_None_iff)
  then obtain e where "getUserByUsername d (username userData) = Some e"
    by (auto simp: getUserByUsername_def)
  with assms(1) show ?thesis by (simp add: register_def)
qed

theorem register_duplicate_username_witness:
  "register Some (\<lambda>p. ''$2a$10$'' @ p) (\<lambda>u. ''token'') sampleDb
     \<lparr>username = ''ada'', password = ''another password''\<rparr>
   = ((400, Msg ''Username already exists''), sampleDb)"
proof -
  have "\<lparr>username = ''ada'', password = ''$2a$10$h1'', uid = 1\<rparr> \<in> set (users sampleDb)"
    by (simp add: sampleDb_def)
  moreover have "username \<lparr>username = ''ada'', password = ''$2a$10$h1'', uid = 1\<rparr>
      = username \<lparr>username = ''ada'', password = ''another password''\<rparr>"
    by simp
  moreover have "Some \<lparr>username = ''ada'', password = ''another password''\<rparr>
      = Some \<lparr>username = ''ada'', password = ''another password''\<rparr>"
    by (rule refl)
  ultimately show ?thesis
    using register_duplicate_username [where parseUser = Some and d = sampleDb
        and reqBody = "\<lparr>username = ''ada'', password = ''another password''\<rparr>"
        and userData = "\<lparr>username = ''ada'', password = ''another password''\<rparr>"
        and existingUser = "\<lparr>username = ''ada'', password = ''$2a$10$h1'', uid = 1\<rparr>"]
    by blast
qed

text \<open>
  C10. The conversation that an authenticated \<^verbatim>\<open>POST /api/conversations\<close> creates
  belongs to the user of the verified bearer token; replacing the \<^verbatim>\<open>userId\<close> of the
  request body by any other value changes neither the answer nor the tables.
\<close>

theorem conversation_owner_from_token:
  assumes "authHeader = Some (''Bearer '' @ t)" and "t \<noteq> []" and "verifyToken t = Some u"
    and "parseConversation reqBody = Some data"
  shows "\<exists>c. postConversationRoute verifyToken parseConversation dflt now d authHeader reqBody
               = ((200, ConversationBody c),
                  d\<lparr>conversations := conversations d @ [c], nextId := nextId d + 1\<rparr>)
             \<and> userId c = u
             \<and> (\<forall>x. postConversationRoute verifyToken
                        (\<lambda>b. map_option (\<lambda>z. z\<lparr>bodyUserId := x\<rparr>) (parseConversation b))
                        dflt now d authHeader reqBody
                    = postConversationRoute verifyToken parseConversation dflt now d authHeader reqBody)"
proof -
  have ra: "requireAuth verifyToken authHeader = Inr u"
    unfolding assms(1) requireAuth_bearer using assms(2,3) by simp
  from ra assms(4) show ?thesis
    by (simp add: postConversationRoute_def authenticated_def postConversation_def
          createConversation_def Let_def)
qed

theorem conversation_owner_from_token_witness:
  "\<exists>c. postConversationRoute sampleVerify Some ''New Conversation'' 10 sampleDb
          (Some ''Bearer token-bob'') \<lparr>bodyTitle = Some ''Trip'', bodyUserId = Some 1\<rparr>
        = ((200, ConversationBody c),
           sampleDb\<lparr>conversations := conversations sampleDb @ [c], nextId := nextId sampleDb + 1\<rparr>)
      \<and> userId c = 2"
proof -
  have v: "sampleVerify ''token-bob'' = Some 2" by code_simp
  have h: "Some ''Bearer token-bob'' = Some (''Bearer '' @ ''token-bob'')" by simp
  have ne: "''token-bob'' \<noteq> []" by simp
  have p: "Some \<lparr>bodyTitle = Some ''Trip'', bodyUserId = Some (1::nat)\<rparr>
      = Some \<lparr>bodyTitle = Some ''Trip'', bodyUserId = Some 1\<rparr>"
    by (rule refl)
  from conversation_owner_from_token [where verifyToken = sampleVerify and parseConversation = Some
      and authHeader = "Some ''Bearer token-bob''" and t = "''token-bob''" and u = 2
      and reqBody = "\<lparr>bodyTitle = Some ''Trip'', bodyUserId = Some 1\<rparr>"
      and data = "\<lparr>bodyTitle = Some ''Trip'', bodyUserId = Some 1\<rparr>"
      and dflt = "''New Conversation''" and now = 10 and d = sampleDb, OF h ne v p]
  show ?thesis by blast
qed

end
